theory Spec2Isabelle
  imports Complex_Main
begin

section \<open>Exceptions\<close>

text \<open>
  The exceptions the engine raises, as values.  \<open>NegativeValueError\<close> carries the offending
  value and \<open>NotFoundError\<close> the key that was looked up together with the keys of the
  collection it was looked up in (\<^verbatim>\<open>custom_errors.py\<close>); the built-in exceptions carry
  their message.
\<close>

datatype error =
    NegativeValueError int
  | NotFoundError string "string list"
  | AttributeError string
  | ValueError string
  | KeyError string
  | IndexError string
  | RuntimeError string

section \<open>Monster (\<^verbatim>\<open>monster.py\<close>)\<close>

datatype MonsterStages = Ready | Exhausted | Engaged

text \<open>The text an f-string prints for a stage.\<close>

fun stage_str :: "MonsterStages \<Rightarrow> string" where
  "stage_str Ready = ''ready''"
| "stage_str Exhausted = ''exhausted''"
| "stage_str Engaged = ''engaged''"

record MonsterState =
  stage :: MonsterStages

text \<open>
  \<open>MonsterHealth\<close> owns the health value and the \<open>MonsterState\<close> object the monster's
  \<open>state\<close> property reads.  \<open>MonsterEngagement\<close> is built by the caller before the
  monster exists and holds a \<open>MonsterState\<close> object of its own: \<open>Monster.__new__\<close>
  creates a fresh \<open>MonsterState("ready")\<close> for the health component, so the two are
  different objects and each is a field of its owner here.  Investigators are
  identified by name in the prey relation.
\<close>

record MonsterHealth =
  health :: int
  state :: MonsterState

record MonsterEngagement =
  prey :: "string option"
  eng_state :: MonsterState

record MonsterActivation =
  speed :: int
  act_name :: string
  evade_modifier :: int
  act_location :: string

record Monster =
  name :: string
  damage :: int
  monster_health :: MonsterHealth
  monster_engagement :: MonsterEngagement
  monster_activation :: MonsterActivation

definition validate_health :: "int \<Rightarrow> error + int" where
  "validate_health h = (if h < 0 then Inl (NegativeValueError h) else Inr h)"

text \<open>\<open>MonsterHealth.__set_health\<close>, also the body of the \<open>health\<close> setter.\<close>

definition set_health :: "MonsterHealth \<Rightarrow> int \<Rightarrow> error + MonsterHealth" where
  "set_health mh h =
     (case validate_health h of
        Inl e \<Rightarrow> Inl e
      | Inr v \<Rightarrow> Inr (mh\<lparr>health := v\<rparr>))"

definition MonsterHealth_init :: "int \<Rightarrow> MonsterState \<Rightarrow> error + MonsterHealth" where
  "MonsterHealth_init h st =
     (case validate_health h of
        Inl e \<Rightarrow> Inl e
      | Inr v \<Rightarrow> Inr \<lparr>health = v, state = st\<rparr>)"

definition Monster_new ::
  "string \<Rightarrow> int \<Rightarrow> int \<Rightarrow> MonsterEngagement \<Rightarrow> MonsterActivation \<Rightarrow> error + Monster" where
  "Monster_new nm dmg h eng act =
     (case MonsterHealth_init h \<lparr>stage = Ready\<rparr> of
        Inl e \<Rightarrow> Inl e
      | Inr mh \<Rightarrow>
          Inr \<lparr>name = nm, damage = dmg, monster_health = mh,
               monster_engagement = eng, monster_activation = act\<rparr>)"

text \<open>The \<open>state\<close> property: \<open>self._monster_health._state.stage\<close>.\<close>

definition monster_state :: "Monster \<Rightarrow> MonsterStages" where
  "monster_state m = stage (state (monster_health m))"

definition get_damaged :: "MonsterHealth \<Rightarrow> int \<Rightarrow> error + MonsterHealth" where
  "get_damaged mh amount =
     (if amount < 0 then Inl (NegativeValueError amount)
      else if health mh \<le> 0 then Inl (AttributeError ''Monster has already been defeated'')
      else
        let h = (if stage (state mh) = Exhausted then health mh - amount * 2
                 else health mh - amount)
        in Inr (mh\<lparr>health := (if h < 0 then 0 else h)\<rparr>))"

definition take_damage :: "Monster \<Rightarrow> int \<Rightarrow> error + Monster" where
  "take_damage m amount =
     (case get_damaged (monster_health m) amount of
        Inl e \<Rightarrow> Inl e
      | Inr mh \<Rightarrow> Inr (m\<lparr>monster_health := mh\<rparr>))"

text \<open>
  Writing the stage of the health component's state object
  (\<open>self._monster_health._state.engage()\<close> and its siblings).
\<close>

definition set_stage :: "Monster \<Rightarrow> MonsterStages \<Rightarrow> Monster" where
  "set_stage m s = m\<lparr>monster_health := (monster_health m)\<lparr>state := \<lparr>stage = s\<rparr>\<rparr>\<rparr>"

definition start_engagement :: "MonsterEngagement \<Rightarrow> string \<Rightarrow> error + MonsterEngagement" where
  "start_engagement me investigator =
     (if stage (eng_state me) \<noteq> Ready
      then Inl (AttributeError
             (''Already engaged or exhausted monsters cannot engage investigators. The state is ''
                @ stage_str (stage (eng_state me))))
      else Inr (me\<lparr>prey := Some investigator\<rparr>))"

definition no_fight :: "MonsterEngagement \<Rightarrow> error + MonsterEngagement" where
  "no_fight me =
     (if stage (eng_state me) \<noteq> Engaged
      then Inl (AttributeError ''Monster must be engaged to disengage.'')
      else Inr (me\<lparr>prey := None\<rparr>))"

definition engage :: "Monster \<Rightarrow> string \<Rightarrow> error + Monster" where
  "engage m investigator =
     (if monster_state m \<noteq> Ready
      then Inl (AttributeError
             (''Monster can only engage in the 'ready' state. The state is ''
                @ stage_str (monster_state m)))
      else case start_engagement (monster_engagement m) investigator of
             Inl e \<Rightarrow> Inl e
           | Inr me \<Rightarrow> Inr (set_stage (m\<lparr>monster_engagement := me\<rparr>) Engaged))"

definition exhaust :: "Monster \<Rightarrow> error + Monster" where
  "exhaust m =
     (if monster_state m \<noteq> Engaged
      then Inl (AttributeError
             (''Monster can only be exhausted in the 'engaged' state. The current state is ''
                @ stage_str (monster_state m)))
      else Inr (set_stage m Exhausted))"

definition disengage :: "Monster \<Rightarrow> error + Monster" where
  "disengage m =
     (if monster_state m \<noteq> Engaged
      then Inl (AttributeError
             (''Monster can only disengage in the 'engaged' state. The current state is ''
                @ stage_str (monster_state m)))
      else case no_fight (monster_engagement m) of
             Inl e \<Rightarrow> Inl e
           | Inr me \<Rightarrow> Inr (set_stage (m\<lparr>monster_engagement := me\<rparr>) Ready))"

definition ready :: "Monster \<Rightarrow> error + Monster" where
  "ready m =
     (if monster_state m \<noteq> Exhausted
      then Inl (AttributeError
             (''Monster can only be readied from the 'exhausted' state. The current state is ''
                @ stage_str (monster_state m)))
      else Inr (set_stage m Ready))"

section \<open>Skills, spaces and the investigator's components\<close>

datatype SkillName = COMBAT | LORE | WILL | LUCK | OBSERVATION

record Skill =
  skill_name :: SkillName
  skill_levels :: "SkillName \<rightharpoonup> int"

definition Skill_new :: "SkillName \<Rightarrow> int \<Rightarrow> Skill" where
  "Skill_new nm lvl =
     \<lparr>skill_name = nm,
      skill_levels = [COMBAT \<mapsto> 0, LORE \<mapsto> 0, WILL \<mapsto> 0, LUCK \<mapsto> 0](nm \<mapsto> lvl)\<rparr>"

text \<open>The method call \<open>skill.level(name)\<close>.\<close>

definition level :: "Skill \<Rightarrow> SkillName \<Rightarrow> error + int" where
  "level sk s =
     (case skill_levels sk s of
        None \<Rightarrow> Inl (KeyError ''Skill cannot be found.'')
      | Some l \<Rightarrow> Inr l)"

text \<open>
  The values an expression of \<open>evade_monster\<close> can hold: \<open>None\<close>, an integer, or a bound
  method object.  The attribute access \<open>obs_s.level\<close>, written without a call, evaluates
  to the bound method \<open>level\<close> of the skill.
\<close>

datatype pyval = PyNone | PyInt int | PyBoundMethod

definition level_attr :: "Skill \<Rightarrow> pyval" where
  "level_attr sk = PyBoundMethod"

text \<open>
  A space holds a name, a position and a doom-token count.  The two coordinates are
  Python numbers (floats by the annotation, which also admits ints); \<open>'n\<close> is the type
  of these numbers.
\<close>

record 'n Space =
  space_name :: string
  position :: "'n \<times> 'n"
  doom_tokens :: int

text \<open>The \<open>doom_tokens\<close> setter of \<open>Space\<close>.\<close>

definition set_doom_tokens :: "'n Space \<Rightarrow> int \<Rightarrow> error + 'n Space" where
  "set_doom_tokens sp v =
     (if v < 0 then Inl (NegativeValueError v) else Inr (sp\<lparr>doom_tokens := v\<rparr>))"

text \<open>
  Objects that several owners share (\<open>Space\<close>, \<open>Monster\<close>) live in a store and are named
  by their address; membership of a monster in a Python list is identity of objects, here
  equality of addresses.
\<close>

type_synonym space_ref = nat
type_synonym monster_ref = nat

record InvestigatorItems =
  skills :: "SkillName \<rightharpoonup> Skill"
  focus_tokens :: "string \<rightharpoonup> int"

text \<open>What \<open>str\<close> and an f-string print for an integer: its decimal digits, after a minus sign
  when it is negative.\<close>

function str_nat :: "nat \<Rightarrow> string" where
  "str_nat n =
     (if n < 10 then [''0123456789'' ! n]
      else str_nat (n div 10) @ [''0123456789'' ! (n mod 10)])"
  by pat_completeness auto
termination
  by (relation "measure (\<lambda>n. n)") auto

definition str_int :: "int \<Rightarrow> string" where
  "str_int i = (if i < 0 then ''-'' @ str_nat (nat (- i)) else str_nat (nat i))"

text \<open>
  \<open>InvestigatorItems.spend_money\<close>.  The walrus expression binds \<open>value\<close> to the
  comparison \<open>get("money_tokens") == 0\<close>, a boolean, so the test \<open>value < 0\<close> that
  follows is never true and has no branch here.
\<close>

definition spend_money :: "InvestigatorItems \<Rightarrow> int \<Rightarrow> error + InvestigatorItems" where
  "spend_money it amount =
     (case focus_tokens it ''money_tokens'' of
        None \<Rightarrow> Inl (KeyError ''key 'money_tokens' not found'')
      | Some money_tokens \<Rightarrow>
          if money_tokens = 0 then Inl (ValueError ''no money left to spend'')
          else if money_tokens < amount
          then Inl (ValueError
                 (''Not enough money tokens to spend. Available: '' @ str_int money_tokens
                    @ '', Required: '' @ str_int amount))
          else Inr (it\<lparr>focus_tokens := (focus_tokens it)(''money_tokens'' \<mapsto> money_tokens - amount)\<rparr>))"

section \<open>Investigator status (\<^verbatim>\<open>investigator_status.py\<close>)\<close>

record InvestigatorStatus =
  st_health :: int
  st_sanity :: int
  is_defeated :: bool

definition validate_args :: "int \<Rightarrow> int \<Rightarrow> error + int \<times> int" where
  "validate_args h s =
     (if h < 0 then Inl (NegativeValueError h)
      else if s < 0 then Inl (NegativeValueError s)
      else Inr (h, s))"

definition InvestigatorStatus_new :: "int \<Rightarrow> int \<Rightarrow> bool \<Rightarrow> error + InvestigatorStatus" where
  "InvestigatorStatus_new h s d =
     (case validate_args h s of
        Inl e \<Rightarrow> Inl e
      | Inr (h', s') \<Rightarrow> Inr \<lparr>st_health = h', st_sanity = s', is_defeated = d\<rparr>)"

text \<open>
  \<open>InvestigatorStatus.take_damage\<close> and \<open>lose_sanity\<close>: the guard validates the values
  the object holds before the call (a pair, which is truthy), then the amount.
\<close>

definition status_take_damage :: "InvestigatorStatus \<Rightarrow> int \<Rightarrow> error + InvestigatorStatus" where
  "status_take_damage st amount =
     (case validate_args (st_health st) (st_sanity st) of
        Inl e \<Rightarrow> Inl e
      | Inr _ \<Rightarrow>
          if amount < 0 then Inl (NegativeValueError amount)
          else Inr (st\<lparr>st_health := st_health st - amount\<rparr>))"

definition lose_sanity :: "InvestigatorStatus \<Rightarrow> int \<Rightarrow> error + InvestigatorStatus" where
  "lose_sanity st amount =
     (case validate_args (st_health st) (st_sanity st) of
        Inl e \<Rightarrow> Inl e
      | Inr _ \<Rightarrow>
          if amount < 0 then Inl (NegativeValueError amount)
          else Inr (st\<lparr>st_sanity := st_sanity st - amount\<rparr>))"

definition check_defeat :: "InvestigatorStatus \<Rightarrow> bool" where
  "check_defeat st = (st_sanity st = 0 \<or> st_health st = 0)"

section \<open>Combat and movement (\<^verbatim>\<open>fight_prep.py\<close>)\<close>

text \<open>
  The random source.  \<open>random.randint(1, 6)\<close> is read from a supplied sequence of faces,
  the \<open>i\<close>-th call returning \<open>dice i\<close>; \<open>sum(randint(1, 6) >= 5 for _ in range(n))\<close> makes
  \<open>n\<close> calls (none when \<open>n\<close> is not positive) and counts the faces of 5 or more.
\<close>

definition successes :: "(nat \<Rightarrow> nat) \<Rightarrow> int \<Rightarrow> int" where
  "successes dice n = int (length (filter (\<lambda>i. 5 \<le> dice i) [0 ..< nat n]))"

text \<open>
  \<open>Combat.__init__\<close> assigns \<open>_investigator\<close>, \<open>_inventory\<close>, \<open>_location\<close> (the location
  the owner has when the object is built) and an empty \<open>__engaged_monsters\<close>.  The class
  also declares \<open>_inv_items\<close>, which no statement of the repository assigns: the field
  is \<open>None\<close> while the attribute does not exist on the object.
\<close>

record Combat =
  combat_inv_items :: "InvestigatorItems option"
  combat_location :: space_ref
  engaged_monsters :: "monster_ref list"

definition Combat_init :: "space_ref \<Rightarrow> Combat" where
  "Combat_init parent_location =
     \<lparr>combat_inv_items = None, combat_location = parent_location, engaged_monsters = []\<rparr>"

text \<open>
  The investigator with the components the in-scope operations touch.  \<open>location\<close> is the
  attribute \<open>_location\<close> read by the \<open>location\<close> property; \<open>Investigator.__new__\<close> does
  not assign it (it stores its argument as \<open>_inv_location\<close>), so it is \<open>None\<close> until the
  \<open>location\<close> setter or a move has written it.
\<close>

record Investigator =
  inv_items :: InvestigatorItems
  inv_status :: InvestigatorStatus
  inv_combat :: Combat
  location :: "space_ref option"

definition ward_doom ::
  "Combat \<Rightarrow> (space_ref \<Rightarrow> 'n Space) \<Rightarrow> (nat \<Rightarrow> nat)
     \<Rightarrow> error option \<times> (space_ref \<Rightarrow> 'n Space)" where
  "ward_doom c spaces dice =
     (case combat_inv_items c of
        None \<Rightarrow> (Some (AttributeError ''Combat object has no attribute _inv_items''), spaces)
      | Some items \<Rightarrow>
          (case skills items LORE of
             None \<Rightarrow> (Some (KeyError ''Lore skill not found''), spaces)
           | Some lore_skill \<Rightarrow>
               (case level lore_skill LORE of
                  Inl e \<Rightarrow> (Some e, spaces)
                | Inr lev \<Rightarrow>
                    let num_successes = successes dice lev;
                        loc = spaces (combat_location c);
                        removed_dooms = min num_successes (doom_tokens loc)
                    in (case set_doom_tokens loc (doom_tokens loc - removed_dooms) of
                          Inl e \<Rightarrow> (Some e, spaces)
                        | Inr loc' \<Rightarrow> (None, spaces(combat_location c := loc'))))))"

text \<open>
  \<open>Combat.attack_monster\<close>: \<open>monster._monster_health.health -= 1\<close> reads the health
  and writes the difference through the validating setter.  The first component of the
  result is the exception raised, if any; the second the monsters afterwards.
\<close>

definition attack_monster ::
  "Combat \<Rightarrow> (monster_ref \<Rightarrow> Monster) \<Rightarrow> monster_ref
     \<Rightarrow> error option \<times> (monster_ref \<Rightarrow> Monster)" where
  "attack_monster c monsters r =
     (if r \<notin> set (engaged_monsters c)
      then (Some (ValueError ''Monster must be engaged to be attacked''), monsters)
      else case set_health (monster_health (monsters r))
                  (health (monster_health (monsters r)) - 1) of
             Inl e \<Rightarrow> (Some e, monsters)
           | Inr mh \<Rightarrow> (None, monsters(r := (monsters r)\<lparr>monster_health := mh\<rparr>)))"

text \<open>
  \<open>Combat.evade_monster\<close>, for the combat component of the investigator it belongs to
  (\<open>self\<close> is \<open>inv._inv_combat\<close> and \<open>self._investigator\<close> is \<open>inv\<close>, as when the call
  comes through \<open>Investigator.evade_monster\<close>).  In the success branch the monster is
  first removed from the engaged list and then \<open>monster._monster_state.exhaust()\<close> is
  evaluated; \<open>Monster\<close> declares \<open>_monster_state\<close> but never assigns it, so that
  attribute access raises.
\<close>

definition evade_monster ::
  "Investigator \<Rightarrow> (monster_ref \<Rightarrow> Monster) \<Rightarrow> monster_ref \<Rightarrow> (nat \<Rightarrow> nat)
     \<Rightarrow> error option \<times> Investigator \<times> (monster_ref \<Rightarrow> Monster)" where
  "evade_monster actor monsters r dice =
     (if r \<notin> set (engaged_monsters (inv_combat actor))
      then (Some (ValueError ''investigator is not engaged with monster''), actor, monsters)
      else case skills (inv_items actor) OBSERVATION of
             None \<Rightarrow> (Some (KeyError ''Observation skill not found''), actor, monsters)
           | Some obs_s \<Rightarrow>
               (case level_attr obs_s of
                  PyNone \<Rightarrow> (Some (ValueError ''Observation skill level is None''), actor, monsters)
                | PyBoundMethod \<Rightarrow>
                    (Some (AttributeError ''observation level isnt an integer''), actor, monsters)
                | PyInt obl \<Rightarrow>
                    let num_rolls = max (obl + evade_modifier (monster_activation (monsters r))) 1;
                        num_succ = successes dice num_rolls
                    in if num_succ > 0
                       then (Some (AttributeError ''Monster object has no attribute _monster_state''),
                             actor\<lparr>inv_combat := (inv_combat actor)
                                   \<lparr>engaged_monsters := remove1 r (engaged_monsters (inv_combat actor))\<rparr>\<rparr>,
                             monsters)
                       else (case attack_monster (inv_combat actor) monsters r of
                               (e, monsters') \<Rightarrow> (e, actor, monsters'))))"

text \<open>
  \<open>Move.calc_distance\<close> combines the coordinates with \<open>-\<close>, \<open>** 2\<close>, \<open>+\<close>, \<open>math.sqrt\<close>
  and \<open>int\<close>.  What these return on floats (the rounding of each result, the result of
  \<open>**\<close>, which is the C library's \<open>pow\<close>, and where \<open>OverflowError\<close> or \<open>ValueError\<close> is
  raised) is fixed by the platform and not by the repository.  The operations are
  therefore a parameter of the model: each takes numbers and returns a number or
  raises, and \<open>int\<close> returns an integer or raises.
\<close>

record 'n arithmetic =
  num_sub :: "'n \<Rightarrow> 'n \<Rightarrow> error + 'n"
  num_pow2 :: "'n \<Rightarrow> error + 'n"
  num_add :: "'n \<Rightarrow> 'n \<Rightarrow> error + 'n"
  math_sqrt :: "'n \<Rightarrow> error + 'n"
  num_int :: "'n \<Rightarrow> error + int"

text \<open>
  \<open>Move.calc_distance\<close>: the two differences first, then
  \<open>int(math.sqrt(diff_x_axis**2 + diff_y_axis**2))\<close>, operands left to right; the
  first operation that raises ends the call.
\<close>

definition calc_distance :: "'n arithmetic \<Rightarrow> 'n Space \<Rightarrow> 'n Space \<Rightarrow> error + int" where
  "calc_distance ar start_sp end_sp =
     (case num_sub ar (fst (position start_sp)) (fst (position end_sp)) of
        Inl e \<Rightarrow> Inl e
      | Inr diff_x_axis \<Rightarrow>
     (case num_sub ar (snd (position start_sp)) (snd (position end_sp)) of
        Inl e \<Rightarrow> Inl e
      | Inr diff_y_axis \<Rightarrow>
     (case num_pow2 ar diff_x_axis of
        Inl e \<Rightarrow> Inl e
      | Inr x2 \<Rightarrow>
     (case num_pow2 ar diff_y_axis of
        Inl e \<Rightarrow> Inl e
      | Inr y2 \<Rightarrow>
     (case num_add ar x2 y2 of
        Inl e \<Rightarrow> Inl e
      | Inr s \<Rightarrow>
     (case math_sqrt ar s of
        Inl e \<Rightarrow> Inl e
      | Inr q \<Rightarrow> num_int ar q))))))"

text \<open>
  \<open>Move.move\<close>.  \<open>investigator.location\<close> reads \<open>_location\<close> and raises while it has never
  been assigned; \<open>investigator.spend_money\<close> delegates to the items component.
\<close>

definition move ::
  "'n arithmetic \<Rightarrow> Investigator \<Rightarrow> (space_ref \<Rightarrow> 'n Space) \<Rightarrow> space_ref
     \<Rightarrow> error option \<times> Investigator" where
  "move ar actor spaces new_space =
     (case location actor of
        None \<Rightarrow> (Some (AttributeError ''Investigator object has no attribute _location''), actor)
      | Some cur \<Rightarrow>
          (case calc_distance ar (spaces cur) (spaces new_space) of
             Inl e \<Rightarrow> (Some e, actor)
           | Inr distance \<Rightarrow>
               if distance > 4
               then (Some (ValueError
                       ''Maximum distance is 2 extra distances an investigator is allowed to spend money on in order to move.''),
                     actor)
               else if distance \<le> 2 then (None, actor\<lparr>location := Some new_space\<rparr>)
               else let additional_cost = distance - 2
                    in (case spend_money (inv_items actor) additional_cost of
                          Inl e \<Rightarrow> (Some e, actor)
                        | Inr it \<Rightarrow> (None, actor\<lparr>inv_items := it, location := Some new_space\<rparr>))))"

section \<open>Double-ended queue (\<^verbatim>\<open>deque.py\<close>)\<close>

text \<open>
  The nodes of a deque are objects linked in both directions, and the operations write
  the links of nodes that other nodes and the deque itself still point to.  The node
  objects therefore live in a store, a list whose index is the address: creating a node
  appends it, and writing an attribute of a node updates its entry.  Nodes that are
  unlinked stay in the store, as unreachable objects do until they are collected.

  Besides the three attributes of the class (\<open>__front_items\<close>, \<open>__rear_items\<close>,
  \<open>__size\<close>) the record has the two attributes \<open>rear\<close> and \<open>front\<close> that
  \<open>dequeue_rear\<close> assigns (\<open>self.rear = ...\<close>, \<open>self.front = None\<close>).  No method reads
  them before \<open>dequeue_rear\<close> has written them, so they start as \<open>None\<close>.
\<close>

record 'a QueueNode =
  node_value :: 'a
  node_next :: "nat option"
  node_prev :: "nat option"

record 'a Deque =
  store :: "'a QueueNode list"
  front_items :: "nat option"
  rear_items :: "nat option"
  size_d :: int
  rear :: "nat option"
  front :: "nat option"

definition QueueNode_new :: "'a \<Rightarrow> 'a QueueNode" where
  "QueueNode_new v = \<lparr>node_value = v, node_next = None, node_prev = None\<rparr>"

definition is_empty :: "'a Deque \<Rightarrow> bool" where
  "is_empty d = (front_items d = None)"

definition enqueue_front :: "'a Deque \<Rightarrow> 'a \<Rightarrow> 'a Deque" where
  "enqueue_front d item =
     (let a = length (store d); new_node = QueueNode_new item
      in if is_empty d
         then d\<lparr>store := store d @ [new_node], front_items := Some a, rear_items := Some a,
                size_d := size_d d + 1\<rparr>
         else case front_items d of
                None \<Rightarrow> d\<lparr>store := store d @ [new_node\<lparr>node_next := None\<rparr>],
                           front_items := Some a, size_d := size_d d + 1\<rparr>
              | Some f \<Rightarrow>
                  d\<lparr>store := (store d @ [new_node\<lparr>node_next := Some f\<rparr>])
                               [f := (store d ! f)\<lparr>node_prev := Some a\<rparr>],
                    front_items := Some a, size_d := size_d d + 1\<rparr>)"

definition enqueue_rear :: "'a Deque \<Rightarrow> 'a \<Rightarrow> 'a Deque" where
  "enqueue_rear d item =
     (let a = length (store d); new_node = QueueNode_new item
      in if is_empty d
         then d\<lparr>store := store d @ [new_node], front_items := Some a, rear_items := Some a,
                size_d := size_d d + 1\<rparr>
         else case rear_items d of
                None \<Rightarrow> d\<lparr>store := store d @ [new_node\<lparr>node_prev := None\<rparr>],
                           rear_items := Some a, size_d := size_d d + 1\<rparr>
              | Some r \<Rightarrow>
                  d\<lparr>store := (store d @ [new_node\<lparr>node_prev := Some r\<rparr>])
                               [r := (store d ! r)\<lparr>node_next := Some a\<rparr>],
                    rear_items := Some a, size_d := size_d d + 1\<rparr>)"

definition dequeue_front :: "'a Deque \<Rightarrow> error + 'a \<times> 'a Deque" where
  "dequeue_front d =
     (if is_empty d then Inl (IndexError ''dequeue from empty deque'')
      else case front_items d of
             None \<Rightarrow> Inl (RuntimeError ''Deque internal state error: front item is None despite non-empty deque'')
           | Some f \<Rightarrow>
               let item = node_value (store d ! f);
                   d1 = d\<lparr>front_items := node_next (store d ! f)\<rparr>;
                   d2 = (case front_items d1 of
                           Some n \<Rightarrow> d1\<lparr>store := (store d1)[n := (store d1 ! n)\<lparr>node_prev := None\<rparr>]\<rparr>
                         | None \<Rightarrow> d1\<lparr>rear_items := None\<rparr>)
               in Inr (item, d2\<lparr>size_d := size_d d2 - 1\<rparr>))"

definition dequeue_rear :: "'a Deque \<Rightarrow> error + 'a \<times> 'a Deque" where
  "dequeue_rear d =
     (if is_empty d then Inl (IndexError ''dequeue from empty deque'')
      else case rear_items d of
             None \<Rightarrow> Inl (RuntimeError ''Deque internal state error: rear item is None despite non-empty deque'')
           | Some r \<Rightarrow>
               let item = node_value (store d ! r);
                   d1 = d\<lparr>rear := node_prev (store d ! r)\<rparr>;
                   d2 = (case rear d1 of
                           Some p \<Rightarrow> d1\<lparr>store := (store d1)[p := (store d1 ! p)\<lparr>node_next := None\<rparr>]\<rparr>
                         | None \<Rightarrow> d1\<lparr>front := None\<rparr>)
               in Inr (item, d2\<lparr>size_d := size_d d2 - 1\<rparr>))"

text \<open>The constructor enqueues the items at the front, one after the other.\<close>

definition Deque_new :: "'a list \<Rightarrow> 'a Deque" where
  "Deque_new items =
     fold (\<lambda>item d. enqueue_front d item) items
       \<lparr>store = [], front_items = None, rear_items = None, size_d = 0, rear = None, front = None\<rparr>"

text \<open>
  The nodes reachable from a pointer by \<open>next\<close> links, in order.  The walk is bounded by
  the number of nodes in the store, which is enough for every chain that does not loop.
\<close>

fun walk :: "'a QueueNode list \<Rightarrow> nat \<Rightarrow> nat option \<Rightarrow> nat list" where
  "walk st 0 p = []"
| "walk st (Suc k) None = []"
| "walk st (Suc k) (Some a) = a # walk st k (node_next (st ! a))"

definition reachable :: "'a Deque \<Rightarrow> nat list" where
  "reachable d = walk (store d) (length (store d)) (front_items d)"

text \<open>
  The invariant of the data model: the size counter is the number of nodes reachable from
  the front, the chain from the front ends at the rear node, and the front and rear
  pointers are both null exactly when the size is 0.
\<close>

definition deque_inv :: "'a Deque \<Rightarrow> bool" where
  "deque_inv d =
     (size_d d = int (length (reachable d)) \<and>
      rear_items d = (if reachable d = [] then None else Some (last (reachable d))) \<and>
      ((front_items d = None \<and> rear_items d = None) = (size_d d = 0)))"

text \<open>
  A deque as the list of the addresses of its nodes, front first: following \<open>next\<close>
  from the front pointer visits exactly these addresses and then reaches null, the
  addresses are distinct, the rear pointer is the last of them and the size counter is
  their number.
\<close>

fun chain :: "'a QueueNode list \<Rightarrow> nat option \<Rightarrow> nat list \<Rightarrow> bool" where
  "chain st p [] = (p = None)"
| "chain st p (a # as) = (p = Some a \<and> a < length st \<and> chain st (node_next (st ! a)) as)"

definition linked :: "'a Deque \<Rightarrow> nat list \<Rightarrow> bool" where
  "linked d as =
     (chain (store d) (front_items d) as \<and> distinct as \<and>
      rear_items d = (if as = [] then None else Some (last as)) \<and>
      size_d d = int (length as))"

section \<open>Directed graph and partial order (\<^verbatim>\<open>digraph.py\<close>)\<close>

text \<open>
  The node set and the edge set are Python sets.  A set is a list without repetitions
  here, and the order of the list is the order in which iteration yields the elements;
  adding an element that is present changes nothing.  Iteration over a Python set
  follows its hash table, so the order is not fixed by the insertions: \<open>set_add\<close> puts a
  new element last, which is one of the orders the runtime can produce, and what is
  proved below about a search whose outcome can depend on the order is proved for
  every order of the same edges.
\<close>

definition set_add :: "'a \<Rightarrow> 'a list \<Rightarrow> 'a list" where
  "set_add x xs = (if x \<in> set xs then xs else xs @ [x])"

record 'n DiGraph =
  nodes :: "'n list"
  edges :: "('n \<times> 'n) list"

definition DiGraph_new :: "'n DiGraph" where
  "DiGraph_new = \<lparr>nodes = [], edges = []\<rparr>"

definition add_node :: "'n DiGraph \<Rightarrow> 'n \<Rightarrow> 'n DiGraph" where
  "add_node g n = g\<lparr>nodes := set_add n (nodes g)\<rparr>"

definition DiGraph_add_edge :: "'n DiGraph \<Rightarrow> 'n \<Rightarrow> 'n \<Rightarrow> 'n DiGraph" where
  "DiGraph_add_edge g tail head =
     g\<lparr>edges := set_add (tail, head) (edges g),
       nodes := set_add head (set_add tail (nodes g))\<rparr>"

text \<open>
  The loop of \<open>_creates_cycle\<close>.  The stack is held top first: \<open>stack.pop()\<close> takes the
  last element of the Python list and \<open>stack.extend(neighbors)\<close> appends, so the
  neighbours go on top in reverse iteration order.  Every pass that continues puts a
  node into \<open>visited\<close> that was not there, and only heads of edges are ever pushed,
  which bounds the number of passes.
\<close>

function creates_cycle_loop ::
  "('n \<times> 'n) list \<Rightarrow> 'n \<Rightarrow> 'n list \<Rightarrow> 'n list \<Rightarrow> error + bool" where
  "creates_cycle_loop es tail [] visited = Inr False"
| "creates_cycle_loop es tail (node # stack) visited =
     (if node = tail then Inr True
      else if node \<in> set visited
      then Inl (AttributeError ''{node} is in {visited} and cannot be added'')
      else creates_cycle_loop es tail
             (rev (map snd (filter (\<lambda>(t, h). t = node) es)) @ stack) (node # visited))"
  by pat_completeness auto
termination
proof (relation "measure (\<lambda>(es, tail, stack, visited).
                   card ((set stack \<union> snd ` set es) - set visited))")
  show "wf (measure (\<lambda>(es, tail, stack, visited).
              card ((set stack \<union> snd ` set es) - set visited)))"
    by simp
next
  fix es :: "('n \<times> 'n) list" and tail node :: 'n and stack visited :: "'n list"
  assume "node \<noteq> tail" and fresh: "node \<notin> set visited"
  let ?nbrs = "rev (map snd (filter (\<lambda>(t, h). t = node) es))"
  have "(set (?nbrs @ stack) \<union> snd ` set es) - set (node # visited)
          \<subset> (set (node # stack) \<union> snd ` set es) - set visited"
    using fresh by auto
  then have "card ((set (?nbrs @ stack) \<union> snd ` set es) - set (node # visited))
               < card ((set (node # stack) \<union> snd ` set es) - set visited)"
    by (intro psubset_card_mono) auto
  then show "((es, tail, ?nbrs @ stack, node # visited), (es, tail, node # stack, visited))
               \<in> measure (\<lambda>(es, tail, stack, visited).
                     card ((set stack \<union> snd ` set es) - set visited))"
    by simp
qed

definition creates_cycle :: "'n DiGraph \<Rightarrow> 'n \<Rightarrow> 'n \<Rightarrow> error + bool" where
  "creates_cycle g tail head = creates_cycle_loop (edges g) tail [head] []"

text \<open>\<open>PartialOrder.add_edge\<close>: the exception raised, if any, and the graph afterwards.\<close>

definition add_edge :: "'n DiGraph \<Rightarrow> 'n \<Rightarrow> 'n \<Rightarrow> error option \<times> 'n DiGraph" where
  "add_edge g tail head =
     (case creates_cycle g tail head of
        Inl e \<Rightarrow> (Some e, g)
      | Inr True \<Rightarrow>
          (Some (ValueError
             ''Adding this edge creates a cycle, which is not allowed in a partial order.''), g)
      | Inr False \<Rightarrow> (None, DiGraph_add_edge g tail head))"

text \<open>A sequence of \<open>add_edge\<close> calls; a call that raises leaves the graph to the next one.\<close>

definition add_edges :: "'n DiGraph \<Rightarrow> ('n \<times> 'n) list \<Rightarrow> 'n DiGraph" where
  "add_edges g calls = fold (\<lambda>(tail, head) g'. snd (add_edge g' tail head)) calls g"

section \<open>Action registry and dispatcher (\<^verbatim>\<open>arkham_horror.py\<close>)\<close>

text \<open>
  A member of a class body is a function, which is callable, or some other value (the
  module name, the docstring, the annotations).  A dictionary is an association list in
  insertion order; storing under a key that is present replaces its value in place.
\<close>

datatype member = Function string | Attribute

fun callable :: "member \<Rightarrow> bool" where
  "callable (Function f) = True"
| "callable Attribute = False"

definition startswith :: "string \<Rightarrow> string \<Rightarrow> bool" where
  "startswith s p = (take (length p) s = p)"

text \<open>
  \<open>str.replace(old, new)\<close> for a pattern \<open>old\<close> that is not empty (the dispatcher's is
  the constant \<open>"_action"\<close>): every occurrence is replaced, scanning from the left.
\<close>

fun str_replace :: "string \<Rightarrow> string \<Rightarrow> string \<Rightarrow> string" where
  "str_replace [] old new = []"
| "str_replace (c # cs) old new =
     (if old \<noteq> [] \<and> take (length old) (c # cs) = old
      then new @ str_replace (drop (length old) (c # cs)) old new
      else c # str_replace cs old new)"

fun dict_set :: "'k \<Rightarrow> 'v \<Rightarrow> ('k \<times> 'v) list \<Rightarrow> ('k \<times> 'v) list" where
  "dict_set k v [] = [(k, v)]"
| "dict_set k v (p # ps) = (if fst p = k then (k, v) # ps else p # dict_set k v ps)"

text \<open>
  The metaclass \<open>Action.__new__\<close>: the registry of the new class, filled from the class
  body \<open>dic_vals\<close>.
\<close>

definition Action_new :: "(string \<times> member) list \<Rightarrow> (string \<times> member) list" where
  "Action_new dic_vals =
     fold (\<lambda>(key, v) reg.
             if callable v \<and> startswith key ''_action'' then dict_set key v reg else reg)
       dic_vals []"

definition get_action_map :: "(string \<times> member) list \<Rightarrow> (string \<times> member) list" where
  "get_action_map registered_actions =
     fold (\<lambda>(key, func) m. dict_set (str_replace key ''_action'' '''') func m)
       registered_actions []"

text \<open>
  \<open>perform_investigator_action\<close>.  A normal return is the handler that was called with
  its positional arguments; the investigators are the manager's dictionary.
\<close>

definition perform_investigator_action ::
  "(string \<rightharpoonup> 'v) \<Rightarrow> (string \<times> member) list \<Rightarrow> string \<Rightarrow> string \<Rightarrow> 'v list
     \<Rightarrow> error + member \<times> 'v list" where
  "perform_investigator_action investigators registered_actions investigator_name action args =
     (case investigators investigator_name of
        None \<Rightarrow> Inl (KeyError ''the investigator {name} doesn't exit in {self._investigator}'')
      | Some investigator \<Rightarrow>
          let action_map = get_action_map registered_actions
          in (case map_of action_map action of
                None \<Rightarrow> Inl (NotFoundError action (map fst action_map))
              | Some action_func \<Rightarrow>
                  if action \<in> set [''draw_token'', ''draw_event_token'', ''draw_monster'']
                  then Inr (action_func, [])
                  else Inr (action_func, investigator # args)))"

text \<open>The body of the class \<open>ActionManager\<close>, in the order of its statements.\<close>

definition ActionManager_body :: "(string \<times> member) list" where
  "ActionManager_body =
     [(''__module__'', Attribute),
      (''__qualname__'', Attribute),
      (''__doc__'', Attribute),
      (''__annotations__'', Attribute),
      (''__new__'', Function ''__new__''),
      (''get_action_map'', Function ''get_action_map''),
      (''perform_investigator_action'', Function ''perform_investigator_action''),
      (''_move_investigator'', Function ''_move_investigator''),
      (''_attack_monster'', Function ''_attack_monster''),
      (''_evade_monster'', Function ''_evade_monster''),
      (''_ward_doom'', Function ''_ward_doom''),
      (''resolve_encounter'', Function ''resolve_encounter'')]"

section \<open>Concrete objects\<close>

text \<open>
  The objects the theorems below are evaluated on.  \<open>ghoul s h\<close> is a monster of health
  \<open>h\<close> in stage \<open>s\<close>, built around an engagement component in the ready state and, when
  not ready, engaged by the investigator Lakshmi Patel.
\<close>

definition ghoul :: "MonsterStages \<Rightarrow> int \<Rightarrow> Monster" where
  "ghoul s h =
     \<lparr>name = ''Ghoul'', damage = 1,
      monster_health = \<lparr>health = h, state = \<lparr>stage = s\<rparr>\<rparr>,
      monster_engagement =
        \<lparr>prey = (if s = Ready then None else Some ''Lakshmi Patel''),
         eng_state = \<lparr>stage = Ready\<rparr>\<rparr>,
      monster_activation =
        \<lparr>speed = 1, act_name = ''Ghoul'', evade_modifier = 0, act_location = ''Downtown''\<rparr>\<rparr>"

definition board :: "space_ref \<Rightarrow> real Space" where
  "board = (\<lambda>_. \<lparr>space_name = ''Downtown'', position = (1, 1), doom_tokens = 3\<rparr>)
             (1 := \<lparr>space_name = ''Northside'', position = (3, 2), doom_tokens = 0\<rparr>,
              2 := \<lparr>space_name = ''Rivertown'', position = (4, 1), doom_tokens = 0\<rparr>,
              3 := \<lparr>space_name = ''Easttown'', position = (4, 5), doom_tokens = 0\<rparr>,
              4 := \<lparr>space_name = ''Uptown'', position = (4, 4), doom_tokens = 0\<rparr>)"

text \<open>
  Exact arithmetic on real numbers, with \<open>int\<close> as truncation toward zero: one value of
  the arithmetic parameter, under which \<open>calc_distance\<close> is the floor of the Euclidean
  distance.  On the whole-number coordinates of the board above the float operations
  of Python return the same distances: 2, 3, 5 and 4 from Downtown.
\<close>

definition exact_arith :: "real arithmetic" where
  "exact_arith =
     \<lparr>num_sub = (\<lambda>a b. Inr (a - b)),
      num_pow2 = (\<lambda>a. Inr (a\<^sup>2)),
      num_add = (\<lambda>a b. Inr (a + b)),
      math_sqrt = (\<lambda>a. if a < 0 then Inl (ValueError ''math domain error'') else Inr (sqrt a)),
      num_int = (\<lambda>a. Inr (if a < 0 then \<lceil>a\<rceil> else \<lfloor>a\<rfloor>))\<rparr>"

definition walker :: "int \<Rightarrow> Investigator" where
  "walker money =
     \<lparr>inv_items = \<lparr>skills = Map.empty, focus_tokens = [''money_tokens'' \<mapsto> money]\<rparr>,
      inv_status = \<lparr>st_health = 5, st_sanity = 5, is_defeated = False\<rparr>,
      inv_combat = Combat_init 0,
      location = Some 0\<rparr>"

definition scout :: Investigator where
  "scout =
     \<lparr>inv_items =
        \<lparr>skills = [OBSERVATION \<mapsto> Skill_new OBSERVATION 2, LORE \<mapsto> Skill_new LORE 2],
         focus_tokens = [''money_tokens'' \<mapsto> 0]\<rparr>,
      inv_status = \<lparr>st_health = 5, st_sanity = 5, is_defeated = False\<rparr>,
      inv_combat = (Combat_init 0)\<lparr>engaged_monsters := [7]\<rparr>,
      location = Some 0\<rparr>"

definition diamond :: "nat DiGraph" where
  "diamond = add_edges DiGraph_new [(1, 2), (1, 3), (2, 4), (3, 4)]"

definition one_card :: "nat Deque" where
  "one_card = Deque_new [1]"

section \<open>Monster damage\<close>

text \<open>
  C6.  \<open>Monster.take_damage(amount)\<close> raises \<open>NegativeValueError\<close> on a negative amount
  and raises when the health is already 0; otherwise it subtracts twice the amount when
  the monster is exhausted and the amount itself in any other state, and floors the
  result at 0.  Whenever the call returns, the health is not below 0.
\<close>

theorem take_damage_floor:
  "(amount < 0 \<longrightarrow> take_damage m amount = Inl (NegativeValueError amount)) \<and>
   (0 \<le> amount \<and> health (monster_health m) = 0 \<longrightarrow>
      take_damage m amount = Inl (AttributeError ''Monster has already been defeated'')) \<and>
   (0 \<le> amount \<and> 0 < health (monster_health m) \<longrightarrow>
      take_damage m amount =
        Inr (m\<lparr>monster_health := (monster_health m)
                \<lparr>health := max 0 (health (monster_health m)
                    - (if monster_state m = Exhausted then 2 * amount else amount))\<rparr>\<rparr>)) \<and>
   (\<forall>m'. take_damage m amount = Inr m' \<longrightarrow> 0 \<le> health (monster_health m'))"
  by (auto simp: take_damage_def get_damaged_def monster_state_def Let_def max_def
           split: if_splits)

theorem take_damage_floor_witness:
  "take_damage (ghoul Ready 5) (- 1) = Inl (NegativeValueError (- 1)) \<and>
   take_damage (ghoul Ready 0) 1 = Inl (AttributeError ''Monster has already been defeated'') \<and>
   health (monster_health (projr (take_damage (ghoul Exhausted 5) 2))) = 1 \<and>
   health (monster_health (projr (take_damage (ghoul Exhausted 5) 3))) = 0 \<and>
   health (monster_health (projr (take_damage (ghoul Engaged 5) 3))) = 2"
  using take_damage_floor [of "- 1" "ghoul Ready 5"]
        take_damage_floor [of 1 "ghoul Ready 0"]
        take_damage_floor [of 2 "ghoul Exhausted 5"]
        take_damage_floor [of 3 "ghoul Exhausted 5"]
        take_damage_floor [of 3 "ghoul Engaged 5"]
  by (simp add: ghoul_def monster_state_def)

section \<open>The baseline attack on a defeated monster\<close>

text \<open>
  C10.  For a monster of the actor's engaged list whose health is 0, \<open>attack_monster\<close>
  raises \<open>NegativeValueError\<close> for the value -1 that it hands to the validating health
  setter, and every monster, the attacked one included, is as before: the health stays 0
  and is not floored on this path.
\<close>

theorem attack_defeated_monster_raises:
  "r \<in> set (engaged_monsters c) \<Longrightarrow> health (monster_health (monsters r)) = 0 \<Longrightarrow>
     attack_monster c monsters r = (Some (NegativeValueError (- 1)), monsters)"
  by (simp add: attack_monster_def set_health_def validate_health_def)

theorem attack_defeated_monster_raises_witness:
  "attack_monster ((Combat_init 0)\<lparr>engaged_monsters := [7]\<rparr>) (\<lambda>_. ghoul Engaged 0) 7
     = (Some (NegativeValueError (- 1)), (\<lambda>_. ghoul Engaged 0)) \<and>
   health (monster_health (snd (attack_monster ((Combat_init 0)\<lparr>engaged_monsters := [7]\<rparr>)
                                       (\<lambda>_. ghoul Engaged 0) 7) 7)) = 0"
  using attack_defeated_monster_raises
          [of 7 "(Combat_init 0)\<lparr>engaged_monsters := [7]\<rparr>" "\<lambda>_. ghoul Engaged 0"]
  by (simp add: ghoul_def)

section \<open>Movement\<close>

lemma str_int_examples:
  "str_int 1 = ''1''" "str_int 2 = ''2''" "str_int 120 = ''120''" "str_int (- 7) = ''-7''"
  by (simp_all add: str_int_def)

text \<open>
  Under exact arithmetic \<open>calc_distance\<close> is the floor of the Euclidean distance between
  the two positions.
\<close>

lemma sqrt_9: "sqrt 9 = 3"
  using real_sqrt_abs [of 3] by simp

lemma sqrt_25: "sqrt 25 = 5"
  using real_sqrt_abs [of 5] by simp

lemma floor_sqrt_5: "\<lfloor>sqrt 5\<rfloor> = 2"
proof -
  have lo: "2 \<le> sqrt 5" by (rule real_le_rsqrt) simp
  have hi: "sqrt 5 < 3" by (rule real_less_lsqrt) simp_all
  from lo hi show ?thesis by (simp add: floor_eq_iff)
qed

lemma floor_sqrt_18: "\<lfloor>sqrt 18\<rfloor> = 4"
proof -
  have lo: "4 \<le> sqrt 18" by (rule real_le_rsqrt) simp
  have hi: "sqrt 18 < 5" by (rule real_less_lsqrt) simp_all
  from lo hi show ?thesis by (simp add: floor_eq_iff)
qed

lemma calc_distance_exact:
  "calc_distance exact_arith a b =
     Inr \<lfloor>sqrt ((fst (position a) - fst (position b))\<^sup>2 + (snd (position a) - snd (position b))\<^sup>2)\<rfloor>"
proof -
  let ?s = "(fst (position a) - fst (position b))\<^sup>2 + (snd (position a) - snd (position b))\<^sup>2"
  have nonneg: "\<not> ?s < 0" by (simp add: not_less)
  have root: "\<not> sqrt ?s < 0" by (simp add: not_less)
  show ?thesis
    using nonneg root by (simp add: calc_distance_def exact_arith_def)
qed

lemma board_distances:
  "calc_distance exact_arith (board 0) (board 1) = Inr 2"
  "calc_distance exact_arith (board 0) (board 2) = Inr 3"
  "calc_distance exact_arith (board 0) (board 3) = Inr 5"
  "calc_distance exact_arith (board 0) (board 4) = Inr 4"
  by (simp_all add: calc_distance_exact board_def sqrt_9 sqrt_25 floor_sqrt_5 floor_sqrt_18)

text \<open>
  An arithmetic operation that raises inside \<open>calc_distance\<close> ends the move with that
  exception and the actor unchanged.
\<close>

lemma move_distance_error:
  "location actor = Some cur \<Longrightarrow> calc_distance ar (spaces cur) (spaces tgt) = Inl e \<Longrightarrow>
     move ar actor spaces tgt = (Some e, actor)"
  by (simp add: move_def)

lemma walker_location: "location (walker k) = Some 0"
  by (simp add: walker_def)

lemma walker_money: "focus_tokens (inv_items (walker k)) ''money_tokens'' = Some k"
  by (simp add: walker_def)

lemma walker_spend:
  "(walker k)\<lparr>inv_items := (inv_items (walker k))
        \<lparr>focus_tokens := (focus_tokens (inv_items (walker k)))(''money_tokens'' \<mapsto> j)\<rparr>,
      location := Some t\<rparr> = (walker j)\<lparr>location := Some t\<rparr>"
  by (simp add: walker_def)

lemma board_positions:
  "position (board 0) = (1, 1)" "position (board 1) = (3, 2)" "position (board 2) = (4, 1)"
  "position (board 3) = (4, 5)" "position (board 4) = (4, 4)"
  by (simp_all add: board_def)

lemma exact_ops:
  "num_sub exact_arith a b = Inr (a - b)"
  "num_pow2 exact_arith a = Inr (a\<^sup>2)"
  "num_add exact_arith a b = Inr (a + b)"
  "0 \<le> a \<Longrightarrow> math_sqrt exact_arith a = Inr (sqrt a)"
  "0 \<le> a \<Longrightarrow> num_int exact_arith a = Inr \<lfloor>a\<rfloor>"
  by (simp_all add: exact_arith_def)

lemma gate_instance:
  assumes "position (board t) = (x2, y2)" and "\<lfloor>sqrt ((1 - x2)\<^sup>2 + (1 - y2)\<^sup>2)\<rfloor> = d"
  shows "num_sub exact_arith 1 x2 = Inr (1 - x2)" "num_sub exact_arith 1 y2 = Inr (1 - y2)"
    "num_pow2 exact_arith (1 - x2) = Inr ((1 - x2)\<^sup>2)"
    "num_pow2 exact_arith (1 - y2) = Inr ((1 - y2)\<^sup>2)"
    "num_add exact_arith ((1 - x2)\<^sup>2) ((1 - y2)\<^sup>2) = Inr ((1 - x2)\<^sup>2 + (1 - y2)\<^sup>2)"
    "math_sqrt exact_arith ((1 - x2)\<^sup>2 + (1 - y2)\<^sup>2) = Inr (sqrt ((1 - x2)\<^sup>2 + (1 - y2)\<^sup>2))"
    "num_int exact_arith (sqrt ((1 - x2)\<^sup>2 + (1 - y2)\<^sup>2)) = Inr d"
  using assms(2) by (simp_all add: exact_ops)

text \<open>
  C9.  For an actor that has a current location, let \<open>d\<close> be the integer that \<open>int\<close>
  returns for the square root of the sum of the squares of the two coordinate
  differences, current minus target, in the arithmetic of the platform; this is what
  \<open>calc_distance\<close> returns.  A \<open>d\<close> above 4 is rejected and the actor is unchanged; a \<open>d\<close>
  of at most 2 relocates the actor and leaves the money alone; a \<open>d\<close> of 3 or 4 spends
  \<open>d - 2\<close> money tokens and relocates when the actor has that many, and when the spend
  raises the actor, location included, is unchanged.
\<close>

theorem move_distance_gated:
  assumes "location actor = Some cur"
      and "position (spaces cur) = (x1, y1)" and "position (spaces tgt) = (x2, y2)"
      and "num_sub ar x1 x2 = Inr dx" and "num_sub ar y1 y2 = Inr dy"
      and "num_pow2 ar dx = Inr xx" and "num_pow2 ar dy = Inr yy"
      and "num_add ar xx yy = Inr s" and "math_sqrt ar s = Inr q" and "num_int ar q = Inr d"
  shows "calc_distance ar (spaces cur) (spaces tgt) = Inr d \<and>
         (4 < d \<longrightarrow>
            move ar actor spaces tgt =
              (Some (ValueError
                 ''Maximum distance is 2 extra distances an investigator is allowed to spend money on in order to move.''),
               actor)) \<and>
         (d \<le> 2 \<longrightarrow> move ar actor spaces tgt = (None, actor\<lparr>location := Some tgt\<rparr>)) \<and>
         (2 < d \<and> d \<le> 4 \<longrightarrow>
            (\<forall>e. spend_money (inv_items actor) (d - 2) = Inl e \<longrightarrow>
                   move ar actor spaces tgt = (Some e, actor)) \<and>
            (\<forall>money. focus_tokens (inv_items actor) ''money_tokens'' = Some money \<and> d - 2 \<le> money \<longrightarrow>
                   move ar actor spaces tgt =
                     (None, actor\<lparr>inv_items := (inv_items actor)
                                     \<lparr>focus_tokens := (focus_tokens (inv_items actor))
                                         (''money_tokens'' \<mapsto> money - (d - 2))\<rparr>,
                                   location := Some tgt\<rparr>)) \<and>
            (\<forall>money. focus_tokens (inv_items actor) ''money_tokens'' = Some money \<and> money < d - 2 \<longrightarrow>
                   (\<exists>e. move ar actor spaces tgt = (Some e, actor))))"
proof -
  have dist: "calc_distance ar (spaces cur) (spaces tgt) = Inr d"
    using assms(2-) by (simp add: calc_distance_def)
  show ?thesis
    using assms(1) dist
    by (simp add: move_def Let_def spend_money_def split: option.splits)
qed

theorem move_distance_gated_witness:
  "move exact_arith (walker 4) board 1 = (None, (walker 4)\<lparr>location := Some 1\<rparr>) \<and>
   move exact_arith (walker 4) board 2 = (None, (walker 3)\<lparr>location := Some 2\<rparr>) \<and>
   move exact_arith (walker 4) board 4 = (None, (walker 2)\<lparr>location := Some 4\<rparr>) \<and>
   move exact_arith (walker 1) board 4 =
     (Some (ValueError ''Not enough money tokens to spend. Available: 1, Required: 2''), walker 1) \<and>
   move exact_arith (walker 4) board 3 =
     (Some (ValueError
        ''Maximum distance is 2 extra distances an investigator is allowed to spend money on in order to move.''),
      walker 4)"
proof -
  note g1 = gate_instance [OF board_positions(2), of 2]
  note g2 = gate_instance [OF board_positions(3), of 3]
  note g3 = gate_instance [OF board_positions(4), of 5]
  note g4 = gate_instance [OF board_positions(5), of 4]
  have d1: "\<lfloor>sqrt ((1 - 3)\<^sup>2 + (1 - 2)\<^sup>2)\<rfloor> = (2::int)" by (simp add: floor_sqrt_5)
  have d2: "\<lfloor>sqrt ((1 - 4)\<^sup>2 + (1 - 1)\<^sup>2)\<rfloor> = (3::int)" by (simp add: sqrt_9)
  have d3: "\<lfloor>sqrt ((1 - 4)\<^sup>2 + (1 - 5)\<^sup>2)\<rfloor> = (5::int)" by (simp add: sqrt_25)
  have d4: "\<lfloor>sqrt ((1 - 4)\<^sup>2 + (1 - 4)\<^sup>2)\<rfloor> = (4::int)" by (simp add: floor_sqrt_18)
  have free: "move exact_arith (walker 4) board 1 = (None, (walker 4)\<lparr>location := Some 1\<rparr>)"
    using move_distance_gated [OF walker_location board_positions(1) board_positions(2)
            g1 [OF d1], of 4]
    by simp
  have paid1: "move exact_arith (walker 4) board 2 = (None, (walker 3)\<lparr>location := Some 2\<rparr>)"
    using move_distance_gated [OF walker_location board_positions(1) board_positions(3)
            g2 [OF d2], of 4] walker_money [of 4] walker_spend [where k = 4 and j = 3 and t = 2]
    by simp
  have paid2: "move exact_arith (walker 4) board 4 = (None, (walker 2)\<lparr>location := Some 4\<rparr>)"
    using move_distance_gated [OF walker_location board_positions(1) board_positions(5)
            g4 [OF d4], of 4] walker_money [of 4] walker_spend [where k = 4 and j = 2 and t = 4]
    by simp
  have short: "spend_money (inv_items (walker 1)) (4 - 2) =
                 Inl (ValueError ''Not enough money tokens to spend. Available: 1, Required: 2'')"
    by (simp add: spend_money_def walker_def str_int_def)
  have broke: "move exact_arith (walker 1) board 4 =
     (Some (ValueError ''Not enough money tokens to spend. Available: 1, Required: 2''), walker 1)"
    using move_distance_gated [OF walker_location board_positions(1) board_positions(5)
            g4 [OF d4], of 1] short
    by simp
  have far: "move exact_arith (walker 4) board 3 =
     (Some (ValueError
        ''Maximum distance is 2 extra distances an investigator is allowed to spend money on in order to move.''),
      walker 4)"
    using move_distance_gated [OF walker_location board_positions(1) board_positions(4)
            g3 [OF d3], of 4]
    by simp
  show ?thesis using free paid1 paid2 broke far by blast
qed

section \<open>Investigator status\<close>

text \<open>
  C7.  \<open>InvestigatorStatus.take_damage\<close> subtracts the amount without a floor: from health
  3 a damage of 5 leaves health -2, with \<open>check_defeat\<close> false and the \<open>is_defeated\<close>
  flag as it was; \<open>lose_sanity\<close> brings sanity to 0 without touching the flag either.
\<close>

theorem status_take_damage_unclamped:
  "status_take_damage \<lparr>st_health = 3, st_sanity = 3, is_defeated = False\<rparr> 5
     = Inr \<lparr>st_health = - 2, st_sanity = 3, is_defeated = False\<rparr> \<and>
   \<not> check_defeat \<lparr>st_health = - 2, st_sanity = 3, is_defeated = False\<rparr> \<and>
   lose_sanity \<lparr>st_health = 3, st_sanity = 3, is_defeated = False\<rparr> 3
     = Inr \<lparr>st_health = 3, st_sanity = 0, is_defeated = False\<rparr>"
  by (simp add: status_take_damage_def lose_sanity_def validate_args_def check_defeat_def)

text \<open>
  Once a value is negative every further status operation raises on the object's own
  state, and no status operation writes the \<open>is_defeated\<close> flag.
\<close>

lemma status_stuck_when_negative:
  "st_health st < 0 \<Longrightarrow> status_take_damage st amount = Inl (NegativeValueError (st_health st))"
  by (simp add: status_take_damage_def validate_args_def)

lemma status_flag_never_written:
  "(status_take_damage st amount = Inr st' \<longrightarrow> is_defeated st' = is_defeated st) \<and>
   (lose_sanity st amount = Inr st' \<longrightarrow> is_defeated st' = is_defeated st)"
  by (auto simp: status_take_damage_def lose_sanity_def split: sum.splits if_splits)

section \<open>Monster transitions\<close>

text \<open>
  A transition called outside its source state raises an error that names the required
  and the actual state; the raise comes before any write.
\<close>

lemma transition_guard_violations:
  "(monster_state m \<noteq> Ready \<longrightarrow> engage m i = Inl (AttributeError
       (''Monster can only engage in the 'ready' state. The state is ''
          @ stage_str (monster_state m)))) \<and>
   (monster_state m \<noteq> Engaged \<longrightarrow> exhaust m = Inl (AttributeError
       (''Monster can only be exhausted in the 'engaged' state. The current state is ''
          @ stage_str (monster_state m)))) \<and>
   (monster_state m \<noteq> Engaged \<longrightarrow> disengage m = Inl (AttributeError
       (''Monster can only disengage in the 'engaged' state. The current state is ''
          @ stage_str (monster_state m)))) \<and>
   (monster_state m \<noteq> Exhausted \<longrightarrow> ready m = Inl (AttributeError
       (''Monster can only be readied from the 'exhausted' state. The current state is ''
          @ stage_str (monster_state m))))"
  by (simp add: engage_def exhaust_def disengage_def ready_def)

text \<open>
  \<open>engage\<close> succeeds only while the engagement component's own state object says
  \<open>ready\<close>, and no transition of the monster writes that object; \<open>disengage\<close> asks the
  same object to say \<open>engaged\<close>.  So a monster engaged by \<open>engage\<close> cannot be disengaged.
\<close>

lemma disengage_after_engage_raises:
  "engage m i = Inr m' \<Longrightarrow>
     monster_state m' = Engaged \<and>
     disengage m' = Inl (AttributeError ''Monster must be engaged to disengage.'')"
  by (auto simp: engage_def disengage_def start_engagement_def no_fight_def set_stage_def
        monster_state_def split: if_splits sum.splits)

text \<open>
  C8.  A monster built by its constructor around an engagement component in the ready
  state is engaged by an investigator; \<open>disengage\<close>, called from the required source
  state \<open>engaged\<close>, raises and the monster stays engaged.
\<close>

theorem disengage_from_engaged_raises:
  "Monster_new ''Ghoul'' 1 3 \<lparr>prey = None, eng_state = \<lparr>stage = Ready\<rparr>\<rparr>
      \<lparr>speed = 1, act_name = ''Ghoul'', evade_modifier = 0, act_location = ''Downtown''\<rparr>
     = Inr (ghoul Ready 3) \<and>
   engage (ghoul Ready 3) ''Lakshmi Patel'' = Inr (ghoul Engaged 3) \<and>
   monster_state (ghoul Engaged 3) = Engaged \<and>
   disengage (ghoul Engaged 3)
     = Inl (AttributeError ''Monster must be engaged to disengage.'')"
  by (simp add: Monster_new_def MonsterHealth_init_def validate_health_def ghoul_def engage_def
        disengage_def monster_state_def start_engagement_def no_fight_def set_stage_def)

section \<open>Warding doom and evading\<close>

text \<open>
  On a \<open>Combat\<close> object as its constructor leaves it, \<open>ward_doom\<close> raises at its first
  expression.  With the attribute present and a lore skill in it, the doom tokens of
  the combat component's location go down by the smaller of the successes and the
  tokens there.
\<close>

lemma ward_doom_no_items:
  "ward_doom (Combat_init loc) spaces dice
     = (Some (AttributeError ''Combat object has no attribute _inv_items''), spaces)"
  by (simp add: ward_doom_def Combat_init_def)

lemma ward_doom_with_items:
  assumes "combat_inv_items c = Some items" and "skills items LORE = Some sk"
      and "skill_levels sk LORE = Some lev"
  shows "ward_doom c spaces dice =
           (None, spaces(combat_location c :=
              (spaces (combat_location c))\<lparr>doom_tokens :=
                 doom_tokens (spaces (combat_location c))
                   - min (successes dice lev) (doom_tokens (spaces (combat_location c)))\<rparr>))"
  using assms
  by (simp add: ward_doom_def level_def Let_def set_doom_tokens_def min_def)

text \<open>
  C3.  The investigator has a lore skill of level 2 and stands on a location with 3 doom
  tokens; with every die showing 6, \<open>ward_doom\<close> on the investigator's combat component
  raises \<open>AttributeError\<close> and the location keeps its 3 doom tokens.
\<close>

theorem ward_doom_raises_on_constructed_combat:
  "skills (inv_items scout) LORE = Some (Skill_new LORE 2) \<and>
   doom_tokens (board 0) = 3 \<and>
   ward_doom (inv_combat scout) board (\<lambda>_. 6)
     = (Some (AttributeError ''Combat object has no attribute _inv_items''), board)"
  by (simp add: scout_def board_def ward_doom_def Combat_init_def)

text \<open>
  \<open>evade_monster\<close> never reaches the dice: whatever the actor, the monsters and the
  random source, it raises and changes nothing.
\<close>

lemma evade_monster_always_raises:
  "\<exists>e. evade_monster actor monsters r dice = (Some e, actor, monsters)"
  by (simp add: evade_monster_def level_attr_def split: option.splits)

text \<open>
  C2.  The actor has an observation skill of level 2 and is engaged with a monster of
  health 3.  Whether every die shows 6 or every die shows 1, \<open>evade_monster\<close> raises
  \<open>AttributeError\<close>; the monster is still in the engaged list, still engaged, with
  health 3.
\<close>

theorem evade_monster_raises_before_rolling:
  "evade_monster scout (\<lambda>_. ghoul Engaged 3) 7 (\<lambda>_. 6)
     = (Some (AttributeError ''observation level isnt an integer''), scout, (\<lambda>_. ghoul Engaged 3)) \<and>
   evade_monster scout (\<lambda>_. ghoul Engaged 3) 7 (\<lambda>_. 1)
     = (Some (AttributeError ''observation level isnt an integer''), scout, (\<lambda>_. ghoul Engaged 3)) \<and>
   7 \<in> set (engaged_monsters (inv_combat scout))"
  by (simp add: evade_monster_def scout_def level_attr_def Combat_init_def)

section \<open>Action dispatch\<close>

text \<open>
  No member of the body of \<open>ActionManager\<close> has a name that starts with \<open>_action\<close>, so
  the registry and the action map are empty, and every dispatch for a known
  investigator raises \<open>NotFoundError\<close> with the attempted key and no valid key.
\<close>

lemma registry_empty: "Action_new ActionManager_body = []"
  by (simp add: Action_new_def ActionManager_body_def startswith_def)

lemma action_map_empty: "get_action_map (Action_new ActionManager_body) = []"
  by (simp add: registry_empty get_action_map_def)

lemma dispatch_never_finds:
  "investigators nm = Some v \<Longrightarrow>
     perform_investigator_action investigators (Action_new ActionManager_body) nm action args
       = Inl (NotFoundError action [])"
  by (simp add: perform_investigator_action_def action_map_empty)

text \<open>
  C1.  The call of the method's own docstring,
  \<open>perform_investigator_action("Lakshmi Patel", "move_investigator", "Downtown")\<close>, for a
  registered investigator: the action map built from the class is empty and the call
  raises \<open>NotFoundError\<close>.
\<close>

theorem dispatch_move_investigator_not_found:
  "get_action_map (Action_new ActionManager_body) = [] \<and>
   perform_investigator_action [''Lakshmi Patel'' \<mapsto> ''investigator object'']
       (Action_new ActionManager_body) ''Lakshmi Patel'' ''move_investigator'' [''Downtown'']
     = Inl (NotFoundError ''move_investigator'' [])"
  by (simp add: perform_investigator_action_def action_map_empty)

section \<open>Partial order\<close>

lemma distinct_one: "distinct xs \<Longrightarrow> set xs = {a} \<Longrightarrow> xs = [a]"
proof (cases xs)
  case Nil
  assume "set xs = {a}" with Nil show ?thesis by simp
next
  case (Cons x ys)
  assume d: "distinct xs" and s: "set xs = {a}"
  have "card (set xs) = length xs" using d by (rule distinct_card)
  with s have "length xs = 1" by simp
  with Cons have "ys = []" by simp
  with Cons s show ?thesis by simp
qed

lemma distinct_two:
  "distinct xs \<Longrightarrow> set xs = {a, b} \<Longrightarrow> a \<noteq> b \<Longrightarrow> xs = [a, b] \<or> xs = [b, a]"
proof (cases xs)
  case Nil
  assume "set xs = {a, b}" with Nil show ?thesis by simp
next
  case (Cons x ys)
  assume d: "distinct xs" and s: "set xs = {a, b}" and ne: "a \<noteq> b"
  show ?thesis
  proof (cases ys)
    case Nil
    with Cons s ne show ?thesis by (auto simp: insert_eq_iff doubleton_eq_iff)
  next
    case (Cons y zs)
    note ys = this
    show ?thesis
    proof (cases zs)
      case Nil
      with ys \<open>xs = x # ys\<close> s d ne show ?thesis by (auto simp: doubleton_eq_iff)
    next
      case (Cons z ws)
      have "card (set xs) = length xs" using d by (rule distinct_card)
      with Cons ys \<open>xs = x # ys\<close> have "card (set xs) \<ge> 3" by simp
      moreover have "card {a, b} \<le> 2" by (simp add: card_insert_if)
      ultimately show ?thesis using s by simp
    qed
  qed
qed

lemma neighbours_set:
  "set (map snd (filter (\<lambda>(t, h). t = n) es)) = {h. (n, h) \<in> set es}"
  by force

lemma neighbours_distinct:
  "distinct es \<Longrightarrow> distinct (map snd (filter (\<lambda>(t, h). t = n) es))"
  by (induction es) (auto simp: image_iff)

lemma diamond_built:
  "diamond = \<lparr>nodes = [1, 2, 3, 4], edges = [(1, 2), (1, 3), (2, 4), (3, 4)]\<rparr>"
  by (simp add: diamond_def add_edges_def add_edge_def creates_cycle_def DiGraph_add_edge_def
        DiGraph_new_def set_add_def)

text \<open>
  The search from the top of a diamond meets the bottom node twice, whatever the order
  in which the edge set is iterated, and raises although the tail is out of reach.
\<close>

lemma diamond_any_order:
  fixes es :: "(nat \<times> nat) list"
  assumes d: "distinct es" and s: "set es = {(1, 2), (1, 3), (2, 4), (3, 4)}"
  shows "creates_cycle_loop es 5 [1] []
           = Inl (AttributeError ''{node} is in {visited} and cannot be added'')"
proof -
  let ?nb = "\<lambda>n. map snd (filter (\<lambda>(t, h). t = n) es)"
  have n1: "?nb 1 = [2, 3] \<or> ?nb 1 = [3, 2]"
  proof (rule distinct_two)
    show "distinct (?nb 1)" using d by (rule neighbours_distinct)
    show "set (?nb 1) = {2, 3}" unfolding neighbours_set using s by auto
    show "(2::nat) \<noteq> 3" by simp
  qed
  have n2: "?nb 2 = [4]"
  proof (rule distinct_one)
    show "distinct (?nb 2)" using d by (rule neighbours_distinct)
    show "set (?nb 2) = {4}" unfolding neighbours_set using s by auto
  qed
  have n3: "?nb 3 = [4]"
  proof (rule distinct_one)
    show "distinct (?nb 3)" using d by (rule neighbours_distinct)
    show "set (?nb 3) = {4}" unfolding neighbours_set using s by auto
  qed
  have "set (?nb 4) = {}" unfolding neighbours_set using s by auto
  then have n4: "?nb 4 = []" by (simp only: set_empty)
  from n1 show ?thesis
  proof
    assume "?nb 1 = [2, 3]"
    then show ?thesis using n2 n3 n4 by simp
  next
    assume "?nb 1 = [3, 2]"
    then show ?thesis using n2 n3 n4 by simp
  qed
qed

lemma add_edge_above_diamond_any_order:
  fixes g :: "nat DiGraph"
  assumes "distinct (edges g)" and "set (edges g) = {(1, 2), (1, 3), (2, 4), (3, 4)}"
  shows "add_edge g 5 1
           = (Some (AttributeError ''{node} is in {visited} and cannot be added''), g)"
  using diamond_any_order [OF assms] by (simp add: add_edge_def creates_cycle_def)

text \<open>
  C5.  The diamond 1 \<rightarrow> 2, 1 \<rightarrow> 3, 2 \<rightarrow> 4, 3 \<rightarrow> 4 is built by four accepted \<open>add_edge\<close> calls.
  \<open>add_edge(5, 1)\<close> would close no cycle and the search from 1 does not reach 5, yet the
  call raises \<open>AttributeError\<close> and the edge is not inserted.
\<close>

theorem add_edge_above_diamond_raises:
  "diamond = \<lparr>nodes = [1, 2, 3, 4], edges = [(1, 2), (1, 3), (2, 4), (3, 4)]\<rparr> \<and>
   add_edge diamond 5 1
     = (Some (AttributeError ''{node} is in {visited} and cannot be added''), diamond) \<and>
   (5, 1) \<notin> set (edges (snd (add_edge diamond 5 1)))"
  by (simp add: diamond_built add_edge_def creates_cycle_def)

text \<open>
  What does hold of \<open>add_edge\<close>: it raises the cycle error exactly when the search
  returns true, a call that raises leaves the graph as it was, and a search that
  returns false has seen every node reachable from the head, so that the inserted edge
  closes no cycle.  No sequence of calls makes an acyclic graph cyclic.
\<close>

lemma creates_cycle_loop_error:
  "creates_cycle_loop es t stack visited = Inl e \<Longrightarrow>
     e = AttributeError ''{node} is in {visited} and cannot be added''"
  by (induction es t stack visited rule: creates_cycle_loop.induct) (auto split: if_splits)

lemma add_edge_cycle_error_iff:
  "(fst (add_edge g t h) = Some (ValueError
      ''Adding this edge creates a cycle, which is not allowed in a partial order.''))
   = (creates_cycle g t h = Inr True)"
  by (auto simp: add_edge_def creates_cycle_def split: sum.splits bool.splits
           dest: creates_cycle_loop_error)

lemma add_edge_failure_unchanged:
  "fst (add_edge g t h) \<noteq> None \<Longrightarrow> snd (add_edge g t h) = g"
  by (auto simp: add_edge_def split: sum.splits bool.splits)

lemma creates_cycle_loop_False_closed:
  "creates_cycle_loop es t stack visited = Inr False \<Longrightarrow>
   t \<notin> set visited \<Longrightarrow>
   (\<forall>v\<in>set visited. \<forall>w. (v, w) \<in> set es \<longrightarrow> w \<in> set visited \<union> set stack) \<Longrightarrow>
   \<exists>V. set stack \<union> set visited \<subseteq> V \<and> t \<notin> V \<and> (\<forall>v\<in>V. \<forall>w. (v, w) \<in> set es \<longrightarrow> w \<in> V)"
proof (induction es t stack visited rule: creates_cycle_loop.induct)
  case (1 es tail visited)
  then show ?case by (intro exI [of _ "set visited"]) auto
next
  case (2 es tail node stack visited)
  let ?nbrs = "rev (map snd (filter (\<lambda>(t, h). t = node) es))"
  from "2.prems"(1) have ne: "node \<noteq> tail" and fresh: "node \<notin> set visited"
    and rec: "creates_cycle_loop es tail (?nbrs @ stack) (node # visited) = Inr False"
    by (auto split: if_splits)
  have t': "tail \<notin> set (node # visited)" using ne "2.prems"(2) by auto
  have closed': "\<forall>v\<in>set (node # visited). \<forall>w. (v, w) \<in> set es \<longrightarrow>
                   w \<in> set (node # visited) \<union> set (?nbrs @ stack)"
    using "2.prems"(3) by force
  from "2.IH" [OF ne fresh rec t' closed']
  obtain V where "set (?nbrs @ stack) \<union> set (node # visited) \<subseteq> V" and "tail \<notin> V"
    and "\<forall>v\<in>V. \<forall>w. (v, w) \<in> set es \<longrightarrow> w \<in> V" by blast
  then show ?case by (intro exI [of _ V]) auto
qed

lemma closed_rtrancl:
  "(x, y) \<in> r\<^sup>* \<Longrightarrow> x \<in> V \<Longrightarrow> (\<forall>v\<in>V. \<forall>w. (v, w) \<in> r \<longrightarrow> w \<in> V) \<Longrightarrow> y \<in> V"
  by (induction rule: rtrancl_induct) auto

lemma creates_cycle_False_unreachable:
  assumes "creates_cycle g t h = Inr False"
  shows "(h, t) \<notin> (set (edges g))\<^sup>*"
proof
  assume reach: "(h, t) \<in> (set (edges g))\<^sup>*"
  from assms have "creates_cycle_loop (edges g) t [h] [] = Inr False"
    by (simp add: creates_cycle_def)
  from creates_cycle_loop_False_closed [OF this]
  obtain V where "h \<in> V" and "t \<notin> V"
    and "\<forall>v\<in>V. \<forall>w. (v, w) \<in> set (edges g) \<longrightarrow> w \<in> V" by auto
  with closed_rtrancl [OF reach] show False by blast
qed

lemma add_edge_acyclic:
  assumes "acyclic (set (edges g))"
  shows "acyclic (set (edges (snd (add_edge g t h))))"
proof (cases "creates_cycle g t h")
  case (Inl e)
  with assms show ?thesis by (simp add: add_edge_def)
next
  case (Inr b)
  show ?thesis
  proof (cases b)
    case True
    with Inr assms show ?thesis by (simp add: add_edge_def)
  next
    case False
    with Inr have "(h, t) \<notin> (set (edges g))\<^sup>*"
      by (intro creates_cycle_False_unreachable) simp
    with Inr False assms show ?thesis
      by (simp add: add_edge_def DiGraph_add_edge_def set_add_def)
  qed
qed

lemma add_edges_acyclic:
  "acyclic (set (edges g)) \<Longrightarrow> acyclic (set (edges (add_edges g calls)))"
proof (induction calls arbitrary: g)
  case Nil
  then show ?case by (simp add: add_edges_def)
next
  case (Cons c calls)
  obtain t h where c: "c = (t, h)" by (cases c)
  have "acyclic (set (edges (snd (add_edge g t h))))"
    using Cons.prems by (rule add_edge_acyclic)
  from Cons.IH [OF this] show ?case by (simp add: add_edges_def c)
qed

section \<open>Deque\<close>

text \<open>
  A linked deque satisfies the invariant.  The constructor builds a linked deque, and
  \<open>enqueue_front\<close>, \<open>enqueue_rear\<close> and \<open>dequeue_front\<close> take a linked deque to a
  linked deque with the node list changed as expected; \<open>dequeue_rear\<close> on a linked
  deque of one node returns its value and loses the invariant.
\<close>

lemma chain_walk: "chain st p as \<Longrightarrow> length as \<le> k \<Longrightarrow> walk st k p = as"
proof (induction as arbitrary: p k)
  case Nil
  then show ?case by (cases k) auto
next
  case (Cons a as)
  then obtain k' where "k = Suc k'" by (cases k) auto
  with Cons show ?case by auto
qed

lemma chain_bound: "chain st p as \<Longrightarrow> set as \<subseteq> {..<length st}"
  by (induction as arbitrary: p) auto

lemma chain_length: "chain st p as \<Longrightarrow> distinct as \<Longrightarrow> length as \<le> length st"
proof -
  assume c: "chain st p as" and d: "distinct as"
  have "card (set as) \<le> card {..<length st}"
    using chain_bound [OF c] by (intro card_mono) auto
  with d show ?thesis by (simp add: distinct_card)
qed

lemma linked_reachable: "linked d as \<Longrightarrow> reachable d = as"
  unfolding linked_def reachable_def
  by (auto intro: chain_walk chain_length)

lemma linked_front: "linked d as \<Longrightarrow> (front_items d = None) = (as = [])"
  by (cases as) (auto simp: linked_def)

lemma linked_inv: "linked d as \<Longrightarrow> deque_inv d"
proof -
  assume l: "linked d as"
  have r: "reachable d = as" using l by (rule linked_reachable)
  show ?thesis
    using l linked_front [OF l] unfolding deque_inv_def r
    by (cases as) (auto simp: linked_def)
qed

lemma chain_append_store: "chain st p as \<Longrightarrow> chain (st @ [n]) p as"
  by (induction as arbitrary: p) (auto simp: nth_append)

lemma chain_update_same_next:
  "chain st p as \<Longrightarrow> b < length st \<Longrightarrow> node_next n = node_next (st ! b) \<Longrightarrow>
     chain (st[b := n]) p as"
proof (induction as arbitrary: p)
  case Nil
  then show ?case by simp
next
  case (Cons a as)
  then show ?case by (cases "a = b") auto
qed


lemma chain_fresh: "chain st p as \<Longrightarrow> length st \<notin> set as"
  using chain_bound [of st p as] by auto

lemma enqueue_front_linked:
  assumes l: "linked d as"
  shows "linked (enqueue_front d x) (length (store d) # as)"
proof (cases as)
  case Nil
  with l show ?thesis
    by (simp add: linked_def enqueue_front_def is_empty_def QueueNode_new_def Let_def)
next
  case (Cons f as')
  from l Cons have c: "chain (store d) (Some f) (f # as')" and fr: "front_items d = Some f"
    and f: "f < length (store d)"
    by (auto simp: linked_def)
  let ?new = "(QueueNode_new x)\<lparr>node_next := Some f\<rparr>"
  let ?st = "(store d @ [?new])[f := (store d ! f)\<lparr>node_prev := Some (length (store d))\<rparr>]"
  have "chain (store d @ [?new]) (Some f) (f # as')"
    using c by (rule chain_append_store)
  then have c': "chain ?st (Some f) (f # as')"
    using f by (intro chain_update_same_next) (auto simp: nth_append)
  have fresh: "length (store d) \<notin> set (f # as')" using c by (rule chain_fresh)
  have nxt: "node_next (?st ! length (store d)) = Some f"
    using f by (simp add: nth_append)
  show ?thesis
    using l Cons fr c' fresh nxt
    by (simp add: linked_def enqueue_front_def is_empty_def Let_def)
qed

lemma chain_snoc:
  "chain st p as \<Longrightarrow> as \<noteq> [] \<Longrightarrow> distinct as \<Longrightarrow> a < length st \<Longrightarrow> a \<notin> set as \<Longrightarrow>
   node_next (st ! a) = None \<Longrightarrow>
   chain (st[last as := (st ! last as)\<lparr>node_next := Some a\<rparr>]) p (as @ [a])"
proof (induction as arbitrary: p)
  case Nil
  then show ?case by simp
next
  case (Cons b bs)
  show ?case
  proof (cases bs)
    case Nil
    with Cons.prems show ?thesis by auto
  next
    case (Cons c cs)
    with Cons.prems have "b \<noteq> last bs" by auto
    with Cons.prems Cons.IH [of "node_next (st ! b)"] Cons show ?thesis by auto
  qed
qed

lemma enqueue_rear_linked:
  assumes l: "linked d as"
  shows "linked (enqueue_rear d x) (as @ [length (store d)])"
proof (cases "as = []")
  case True
  with l show ?thesis
    by (simp add: linked_def enqueue_rear_def is_empty_def QueueNode_new_def Let_def)
next
  case False
  from l have c: "chain (store d) (front_items d) as" and dist: "distinct as"
    and rr: "rear_items d = Some (last as)"
    using False by (auto simp: linked_def)
  obtain f where ne: "front_items d = Some f" using linked_front [OF l] False by auto
  have "last as \<in> set as" using False by simp
  with chain_bound [OF c] have r: "last as < length (store d)" by auto
  have fresh: "length (store d) \<notin> set as" using c by (rule chain_fresh)
  let ?new = "(QueueNode_new x)\<lparr>node_prev := Some (last as)\<rparr>"
  let ?st0 = "store d @ [?new]"
  have c0: "chain ?st0 (front_items d) as" using c by (rule chain_append_store)
  have "chain (?st0[last as := (?st0 ! last as)\<lparr>node_next := Some (length (store d))\<rparr>])
          (front_items d) (as @ [length (store d)])"
    using c0 False dist fresh
    by (intro chain_snoc) (auto simp: QueueNode_new_def)
  moreover have "?st0 ! last as = store d ! last as" using r by (simp add: nth_append)
  ultimately have
    "chain (?st0[last as := (store d ! last as)\<lparr>node_next := Some (length (store d))\<rparr>])
       (front_items d) (as @ [length (store d)])" by simp
  then show ?thesis
    using l False rr ne dist fresh
    by (simp add: linked_def enqueue_rear_def is_empty_def Let_def)
qed

lemma dequeue_front_linked:
  assumes l: "linked d (f # as)"
  shows "\<exists>d'. dequeue_front d = Inr (node_value (store d ! f), d') \<and> linked d' as"
proof -
  from l have fr: "front_items d = Some f" and f: "f < length (store d)"
    and c: "chain (store d) (node_next (store d ! f)) as"
    and dist: "distinct as" and rr: "rear_items d = Some (last (f # as))"
    and sz: "size_d d = int (length (f # as))"
    by (auto simp: linked_def)
  show ?thesis
  proof (cases as)
    case Nil
    with c have "node_next (store d ! f) = None" by simp
    with fr Nil sz show ?thesis
      by (simp add: dequeue_front_def is_empty_def Let_def linked_def)
  next
    case (Cons n as')
    with c have nx: "node_next (store d ! f) = Some n" and n: "n < length (store d)" by auto
    have "chain ((store d)[n := (store d ! n)\<lparr>node_prev := None\<rparr>]) (Some n) as"
      using c n unfolding nx by (intro chain_update_same_next) auto
    with fr nx n Cons dist rr sz show ?thesis
      by (simp add: dequeue_front_def is_empty_def Let_def linked_def)
  qed
qed

lemma dequeue_front_empty:
  "linked d [] \<Longrightarrow> dequeue_front d = Inl (IndexError ''dequeue from empty deque'')"
  by (simp add: dequeue_front_def is_empty_def linked_def)

lemma Deque_new_linked: "\<exists>as. linked (Deque_new items) as \<and> length as = length items"
proof -
  have "\<exists>bs. linked (fold (\<lambda>item d. enqueue_front d item) items d) bs
              \<and> length bs = length items + length as"
    if "linked d as" for d :: "'a Deque" and as
    using that
  proof (induction items arbitrary: d as)
    case Nil
    then show ?case by auto
  next
    case (Cons x xs)
    from Cons.IH [OF enqueue_front_linked [OF Cons.prems, of x]] show ?case by auto
  qed
  moreover have "linked \<lparr>store = [], front_items = None, rear_items = None, size_d = 0,
                         rear = None, front = None\<rparr> []"
    by (simp add: linked_def)
  ultimately show ?thesis unfolding Deque_new_def by fastforce
qed

lemma dequeue_rear_sole_breaks:
  assumes l: "linked d [r]"
  shows "\<exists>d'. dequeue_rear d = Inr (node_value (store d ! r), d') \<and> \<not> deque_inv d'"
proof -
  from l have "front_items d = Some r" "rear_items d = Some r" "size_d d = 1"
    by (auto simp: linked_def)
  then show ?thesis
    by (auto simp: dequeue_rear_def is_empty_def Let_def deque_inv_def split: option.splits)
qed

lemma one_card_eval:
  "one_card = \<lparr>store = [\<lparr>node_value = 1, node_next = None, node_prev = None\<rparr>],
               front_items = Some 0, rear_items = Some 0, size_d = 1, rear = None, front = None\<rparr>"
  by (simp add: one_card_def Deque_new_def enqueue_front_def is_empty_def QueueNode_new_def)

lemma one_card_inv: "deque_inv one_card"
  by (simp add: one_card_eval deque_inv_def reachable_def)

text \<open>
  C4.  \<open>dequeue_rear\<close> on a deque of one element returns the element and brings the size
  to 0, but writes the attributes \<open>rear\<close> and \<open>front\<close> and leaves the front and rear
  pointers on the node: the invariant is lost, and a second \<open>dequeue_rear\<close> returns the
  same element again with size -1.  \<open>dequeue_front\<close> on the same deque nulls both
  pointers and keeps the invariant.
\<close>

theorem dequeue_rear_sole_element:
  "deque_inv one_card \<and>
   dequeue_rear one_card = Inr (1, one_card\<lparr>size_d := 0\<rparr>) \<and>
   size_d (snd (projr (dequeue_rear one_card))) = 0 \<and>
   front_items (snd (projr (dequeue_rear one_card))) = Some 0 \<and>
   rear_items (snd (projr (dequeue_rear one_card))) = Some 0 \<and>
   \<not> deque_inv (snd (projr (dequeue_rear one_card))) \<and>
   dequeue_rear (one_card\<lparr>size_d := 0\<rparr>) = Inr (1, one_card\<lparr>size_d := - 1\<rparr>) \<and>
   dequeue_front one_card
     = Inr (1, one_card\<lparr>front_items := None, rear_items := None, size_d := 0\<rparr>) \<and>
   deque_inv (snd (projr (dequeue_front one_card)))"
  by (simp add: one_card_eval dequeue_rear_def dequeue_front_def is_empty_def Let_def
        deque_inv_def reachable_def)

end
